theory Spec2Isabelle
  imports Complex_Main "HOL-Library.Multiset"
begin

section \<open>Python string operations used by the probe and fetch engines\<close>

text \<open>
  Python \<open>str\<close> values are modelled as \<open>string\<close> (lists of 8-bit characters), which
  agrees with Python on ASCII text; a code point beyond ASCII would be one Python
  character but several characters here.
\<close>

definition startswith :: "string \<Rightarrow> string \<Rightarrow> bool" where
  \<comment> \<open>\<open>s.startswith(p)\<close>\<close>
  "startswith s p = (take (length p) s = p)"

definition endswith :: "string \<Rightarrow> string \<Rightarrow> bool" where
  \<comment> \<open>\<open>s.endswith(p)\<close>\<close>
  "endswith s p = (drop (length s - length p) s = p \<and> length p \<le> length s)"

fun py_in :: "string \<Rightarrow> string \<Rightarrow> bool" where
  \<comment> \<open>\<open>p in s\<close>: \<open>p\<close> occurs in \<open>s\<close> as a contiguous substring\<close>
  "py_in p [] = (p = [])"
| "py_in p (c # s) = (startswith (c # s) p \<or> py_in p s)"

fun split :: "char \<Rightarrow> string \<Rightarrow> string list" where
  \<comment> \<open>\<open>s.split(sep)\<close> for a one-character separator; never returns the empty list\<close>
  "split sep [] = [[]]"
| "split sep (c # s) =
     (if c = sep then [] # split sep s
      else (case split sep s of
              [] \<Rightarrow> [[c]]
            | w # ws \<Rightarrow> (c # w) # ws))"

fun join :: "string \<Rightarrow> string list \<Rightarrow> string" where
  \<comment> \<open>\<open>sep.join(parts)\<close>\<close>
  "join sep [] = []"
| "join sep [w] = w"
| "join sep (w # v # ws) = w @ sep @ join sep (v # ws)"

definition strip :: "char \<Rightarrow> string \<Rightarrow> string" where
  \<comment> \<open>\<open>s.strip(c)\<close> for a one-character set\<close>
  "strip c s = rev (dropWhile (\<lambda>x. x = c) (rev (dropWhile (\<lambda>x. x = c) s)))"

definition replace :: "char \<Rightarrow> char \<Rightarrow> string \<Rightarrow> string" where
  \<comment> \<open>\<open>s.replace(a, b)\<close> for one-character \<open>a\<close> and \<open>b\<close>\<close>
  "replace a b s = map (\<lambda>x. if x = a then b else x) s"

definition ascii_lower :: "char \<Rightarrow> char" where
  "ascii_lower c =
     (case map_of (zip ''ABCDEFGHIJKLMNOPQRSTUVWXYZ'' ''abcdefghijklmnopqrstuvwxyz'') c of
        None \<Rightarrow> c
      | Some l \<Rightarrow> l)"

section \<open>urllib.parse.urlparse\<close>

text \<open>
  The standard library's \<open>urlparse\<close> (CPython 3.11, \<open>urllib/parse.py\<close>), restricted to
  the three components the engines read. Its \<open>ValueError\<close> cases (unbalanced brackets
  in the network location, the NFKC check of a non-ASCII network location) are not
  modelled: the model is the function on URLs it accepts.
\<close>

record parse_result =
  scheme :: string
  netloc :: string
  path :: string

definition scheme_chars :: string where
  "scheme_chars =
     ''abcdefghijklmnopqrstuvwxyz'' @ ''ABCDEFGHIJKLMNOPQRSTUVWXYZ'' @ ''0123456789'' @ ''+-.''"

definition ascii_alpha :: "char \<Rightarrow> bool" where
  "ascii_alpha c =
     (c \<in> set (''abcdefghijklmnopqrstuvwxyz'' @ ''ABCDEFGHIJKLMNOPQRSTUVWXYZ''))"

definition uses_params :: "string list" where
  "uses_params =
     ['''', ''ftp'', ''hdl'', ''prospero'', ''http'', ''imap'', ''https'', ''shttp'',
      ''rtsp'', ''rtsps'', ''rtspu'', ''sip'', ''sips'', ''mms'', ''sftp'', ''tel'']"

definition split_scheme :: "string \<Rightarrow> string \<times> string" where
  \<comment> \<open>\<open>i = url.find(':')\<close>; a scheme is split off when \<open>i > 0\<close>, the first character
      is an ASCII letter and \<open>url[:i]\<close> has scheme characters only\<close>
  "split_scheme url =
     (let pre = takeWhile (\<lambda>c. c \<noteq> CHR '':'') url
      in if CHR '':'' \<in> set url \<and> pre \<noteq> [] \<and> ascii_alpha (hd pre)
            \<and> list_all (\<lambda>c. c \<in> set scheme_chars) pre
         then (map ascii_lower pre, drop (length pre + 1) url)
         else ('''', url))"

definition splitnetloc :: "string \<Rightarrow> string \<times> string" where
  \<comment> \<open>\<open>_splitnetloc(url, 2)\<close>: the network location ends at the first of \<open>/ ? #\<close>\<close>
  "splitnetloc url =
     (let delim = (\<lambda>c. c = CHR ''/'' \<or> c = CHR ''?'' \<or> c = CHR ''#'')
      in (takeWhile (\<lambda>c. \<not> delim c) (drop 2 url), dropWhile (\<lambda>c. \<not> delim c) (drop 2 url)))"

definition splitparams :: "string \<Rightarrow> string" where
  \<comment> \<open>the first component of \<open>_splitparams(url)\<close>, called when \<open>';' in url\<close>: the
      parameters of the last path segment are cut off\<close>
  "splitparams url =
     (if CHR ''/'' \<in> set url
      then (let seg = rev (takeWhile (\<lambda>c. c \<noteq> CHR ''/'') (rev url))
            in if CHR '';'' \<in> set seg
               then take (length url - length seg) url @ takeWhile (\<lambda>c. c \<noteq> CHR '';'') seg
               else url)
      else takeWhile (\<lambda>c. c \<noteq> CHR '';'') url)"

definition urlparse :: "string \<Rightarrow> parse_result" where
  "urlparse url0 =
     (let url1 = dropWhile (\<lambda>c. (of_char c :: nat) \<le> 0x20) url0;
          url2 = filter (\<lambda>c. c \<noteq> CHR 0x09 \<and> c \<noteq> CHR 0x0D \<and> c \<noteq> CHR 0x0A) url1;
          (sch, url3) = split_scheme url2;
          (loc, url4) = (if take 2 url3 = ''//'' then splitnetloc url3 else ('''', url3));
          url5 = takeWhile (\<lambda>c. c \<noteq> CHR ''#'') url4;
          url6 = takeWhile (\<lambda>c. c \<noteq> CHR ''?'') url5;
          url7 = (if sch \<in> set uses_params \<and> CHR '';'' \<in> set url6 then splitparams url6 else url6)
      in \<lparr>scheme = sch, netloc = loc, path = url7\<rparr>)"

section \<open>Bookmark records\<close>

text \<open>
  The extractor creates every bookmark with a \<open>status\<close> dictionary whose seven keys
  are all \<open>None\<close> and a \<open>content\<close> dictionary; the probe and fetch engines replace
  these dictionaries. A key that may hold \<open>None\<close> or be absent is an \<open>option\<close>.
  Wall-clock readings (\<open>response_time\<close>, ISO timestamps) are inputs of the model.
\<close>

record status =
  st_code :: "int option"
  st_accessible :: "bool option"
  st_redirect :: "bool option"
  st_redirect_url :: "string option"
  st_response_time :: "real option"
  st_ssl_valid :: "bool option"
  st_last_checked :: "string option"

record content =
  ct_downloaded :: bool
  ct_path :: "string option"
  ct_size :: "nat option"
  ct_mime_type :: "string option"
  ct_download_date :: "string option"
  ct_error :: "string option"
  ct_url_used :: "string option"

record bookmark =
  bm_id :: int
  bm_url :: string
  bm_domain :: string
  bm_status :: status
  bm_content :: content

definition initial_status :: status where
  \<comment> \<open>the \<open>status\<close> dictionary written by the extractor\<close>
  "initial_status =
     \<lparr>st_code = None, st_accessible = None, st_redirect = None, st_redirect_url = None,
      st_response_time = None, st_ssl_valid = None, st_last_checked = None\<rparr>"

definition initial_content :: content where
  \<comment> \<open>the \<open>content\<close> dictionary written by the extractor\<close>
  "initial_content =
     \<lparr>ct_downloaded = False, ct_path = None, ct_size = None, ct_mime_type = None,
      ct_download_date = None, ct_error = None, ct_url_used = None\<rparr>"

section \<open>The probe engine: check_url\<close>

text \<open>
  The exceptions a request can raise, by the handler of \<open>check_url\<close> that catches them
  (the handlers are tried in this order):
  \<^item> \<open>ClientConnectorError\<close>, \<open>ClientResponseError\<close> with its \<open>status\<close>, and any other
    \<open>aiohttp.ClientError\<close>;
  \<^item> \<open>asyncio.TimeoutError\<close> that is not a \<open>ClientError\<close>;
  \<^item> any other \<open>Exception\<close>.
  In the model the HEAD request is the one statement of the \<open>try\<close> block that raises
  into these handlers: the follow-up GET request and the certificate check have handlers
  of their own.
\<close>

datatype exn =
  ClientConnectorError
| ClientResponseError int
| ClientError
| TimeoutError
| OtherException

record response =
  resp_status :: int
  resp_location :: "string option"

text \<open>
  The requests a task issues, in order: \<open>HEAD\<close> and \<open>GET\<close> with the URL and the
  \<open>allow_redirects\<close> flag, and the TLS connection with host and port.
\<close>

datatype request =
  HEAD string bool
| GET string bool
| TLS_CONNECT string nat

text \<open>
  What the network and the clock answer to one probe: the outcome of the HEAD request,
  of the follow-up GET request (read only when that request is issued), the elapsed time
  and the time of day. \<open>on_handshake io name port\<close> tells whether the TLS handshake
  block completes without an exception when it connects to \<open>(name, port)\<close> with
  \<open>server_hostname = name\<close>, under the default SSL context loaded with the root
  certificates of \<open>certifi\<close> (read only when the block is run).
\<close>

record probe_io =
  on_head :: "exn + response"
  on_get :: "exn + response"
  on_handshake :: "string \<Rightarrow> nat \<Rightarrow> bool"
  elapsed :: real
  now_iso :: string

definition absolute_url :: "string \<Rightarrow> bool" where
  \<comment> \<open>\<open>redirect_url.startswith(('http://', 'https://'))\<close>\<close>
  "absolute_url u = (startswith u ''http://'' \<or> startswith u ''https://'')"

definition resolve_relative :: "string \<Rightarrow> string \<Rightarrow> string" where
  \<comment> \<open>lines 54-66: a relative redirect target made absolute against the request URL\<close>
  "resolve_relative url redirect_url =
     (let parsed_url = urlparse url;
          base_url = scheme parsed_url @ ''://'' @ netloc parsed_url
      in if startswith redirect_url ''/'' then base_url @ redirect_url
         else (let p = path parsed_url
               in if endswith p ''/'' then base_url @ p @ redirect_url
                  else (let p' = join ''/'' (butlast (split CHR ''/'' p)) @ ''/''
                        in base_url @ p' @ redirect_url)))"

definition head_redirect_url :: "string \<Rightarrow> response \<Rightarrow> string option" where
  \<comment> \<open>lines 49-66: the redirect target after the HEAD response\<close>
  "head_redirect_url url resp =
     (if 300 \<le> resp_status resp \<and> resp_status resp < 400
      then (case resp_location resp of
              None \<Rightarrow> None
            | Some redirect_url \<Rightarrow>
                if redirect_url \<noteq> [] \<and> \<not> absolute_url redirect_url
                then Some (resolve_relative url redirect_url)
                else Some redirect_url)
      else None)"

definition confirm_get ::
  "string \<Rightarrow> probe_io \<Rightarrow> int \<Rightarrow> string option \<Rightarrow> int \<times> string option \<times> request list" where
  \<comment> \<open>lines 68-77: the GET request that confirms a 4xx or 5xx answer; an exception of the
      GET request is swallowed and the HEAD result kept\<close>
  "confirm_get url io status_code redirect_url =
     (if status_code \<ge> 400
      then (case on_get io of
              Inl e \<Rightarrow> (status_code, redirect_url, [GET url True])
            | Inr get_response \<Rightarrow>
                (resp_status get_response,
                 if 300 \<le> resp_status get_response \<and> resp_status get_response < 400
                 then resp_location get_response else redirect_url,
                 [GET url True]))
      else (status_code, redirect_url, []))"

definition ssl_check :: "string \<Rightarrow> probe_io \<Rightarrow> bool option \<times> request list" where
  \<comment> \<open>lines 79-98: the certificate check, run after the HEAD block has returned; it
      connects to \<open>(parsed_url.netloc, 443)\<close>\<close>
  "ssl_check url io =
     (if startswith url ''https://''
      then (Some (on_handshake io (netloc (urlparse url)) 443),
            [TLS_CONNECT (netloc (urlparse url)) 443])
      else (None, []))"

definition handle_exn :: "exn \<Rightarrow> int" where
  \<comment> \<open>lines 100-113: the \<open>except\<close> chain of the probe\<close>
  "handle_exn e =
     (case e of
        ClientConnectorError \<Rightarrow> 0
      | ClientResponseError s \<Rightarrow> s
      | ClientError \<Rightarrow> - 1
      | TimeoutError \<Rightarrow> 408
      | OtherException \<Rightarrow> - 2)"

definition or0 :: "int option \<Rightarrow> int" where
  \<comment> \<open>\<open>(status_code or 0)\<close>\<close>
  "or0 c = (case c of None \<Rightarrow> 0 | Some n \<Rightarrow> n)"

definition check_url :: "bookmark \<Rightarrow> probe_io \<Rightarrow> bookmark \<times> request list" where
  "check_url bookmark io =
     (let url = bm_url bookmark;
          (status_code, redirect_url, ssl_valid, requests) =
            (case on_head io of
               Inr resp \<Rightarrow>
                 (let (status_code, redirect_url, gets) =
                        confirm_get url io (resp_status resp) (head_redirect_url url resp);
                      (ssl_valid, tls) = ssl_check url io
                  in (Some status_code, redirect_url, ssl_valid, [HEAD url False] @ gets @ tls))
             | Inl e \<Rightarrow> (Some (handle_exn e), None, None, [HEAD url False]))
      in (bookmark\<lparr>bm_status :=
            \<lparr>st_code = status_code,
             st_accessible = Some (200 \<le> or0 status_code \<and> or0 status_code < 400),
             st_redirect = Some (300 \<le> or0 status_code \<and> or0 status_code < 400),
             st_redirect_url = redirect_url,
             st_response_time = Some (elapsed io),
             st_ssl_valid = ssl_valid,
             st_last_checked = Some (now_iso io)\<rparr>\<rparr>,
          requests))"

section \<open>The domain scheduler and the probe phase: check_urls_async\<close>

record config =
  cfg_timeout :: "real option"
  cfg_delay :: "real option"
  cfg_user_agent :: "string option"
  cfg_output_dir :: "string option"

definition get_delay :: "config \<Rightarrow> real \<Rightarrow> real" where
  \<comment> \<open>\<open>config.get('delay', default)\<close>\<close>
  "get_delay cfg dflt = (case cfg_delay cfg of None \<Rightarrow> dflt | Some d \<Rightarrow> d)"

text \<open>
  The dictionary \<open>domains\<close> keeps its keys in insertion order, so it is an association
  list; \<open>dict_append\<close> is the loop body
  \<^verbatim>\<open>if domain not in domains: domains[domain] = []\<close> followed by
  \<^verbatim>\<open>domains[domain].append(bookmark)\<close>.
\<close>

fun dict_append ::
  "(string \<times> bookmark list) list \<Rightarrow> string \<Rightarrow> bookmark \<Rightarrow> (string \<times> bookmark list) list" where
  "dict_append [] d b = [(d, [b])]"
| "dict_append ((k, bs) # rest) d b =
     (if k = d then (k, bs @ [b]) # rest else (k, bs) # dict_append rest d b)"

definition group_by_domain :: "bookmark list \<Rightarrow> (string \<times> bookmark list) list" where
  "group_by_domain bookmarks =
     foldl (\<lambda>domains bookmark. dict_append domains (bm_domain bookmark) bookmark) [] bookmarks"

definition delayed_tasks ::
  "(nat \<Rightarrow> real) \<Rightarrow> (string \<times> bookmark list) list \<Rightarrow> (bookmark \<times> real) list" where
  \<comment> \<open>the loop over \<open>domains.items()\<close> and \<open>enumerate(domain_bookmarks)\<close>: one task per
      bookmark, with its \<open>domain_delay\<close>\<close>
  "delayed_tasks domain_delay domains =
     concat (map (\<lambda>(domain, domain_bookmarks).
                    map (\<lambda>(i, bookmark). (bookmark, domain_delay i)) (enumerate 0 domain_bookmarks))
                 domains)"

definition probe_tasks :: "real \<Rightarrow> bookmark list \<Rightarrow> (bookmark \<times> real) list" where
  \<comment> \<open>\<open>domain_delay = i * delay / 2\<close>\<close>
  "probe_tasks delay bookmarks =
     delayed_tasks (\<lambda>i. real i * delay / 2) (group_by_domain bookmarks)"

text \<open>
  \<open>asyncio.as_completed\<close> yields the tasks in the order in which they finish. The
  finishing time of the task at each position of \<open>tasks\<close> is an input of the model.
\<close>

definition as_completed :: "(nat \<Rightarrow> nat) \<Rightarrow> 'a list \<Rightarrow> 'a list" where
  "as_completed finish tasks =
     map snd (sort_key fst (zip (map finish [0..<length tasks]) tasks))"

definition check_url_with_delay ::
  "bookmark \<Rightarrow> probe_io \<Rightarrow> real \<Rightarrow> bookmark \<times> request list" where
  \<comment> \<open>the sleep before the probe changes no result\<close>
  "check_url_with_delay bookmark io additional_delay = check_url bookmark io"

definition check_urls_async ::
  "bookmark list \<Rightarrow> config \<Rightarrow> (bookmark \<Rightarrow> probe_io) \<Rightarrow> (nat \<Rightarrow> nat) \<Rightarrow> bookmark list" where
  "check_urls_async bookmarks cfg net finish =
     (let delay = get_delay cfg 1;
          tasks = map (\<lambda>(bookmark, domain_delay).
                         fst (check_url_with_delay bookmark (net bookmark) domain_delay))
                      (probe_tasks delay bookmarks);
          updated_bookmarks = as_completed finish tasks
      in sort_key bm_id updated_bookmarks)"

section \<open>The fetch engine: download_page_content and download_content_async\<close>

fun str_nat :: "nat \<Rightarrow> string" where
  "str_nat n =
     (if n < 10 then [''0123456789'' ! n]
      else str_nat (n div 10) @ [''0123456789'' ! (n mod 10)])"

definition str_int :: "int \<Rightarrow> string" where
  \<comment> \<open>\<open>str(n)\<close> of a Python integer\<close>
  "str_int n = (if n < 0 then CHR ''-'' # str_nat (nat (- n)) else str_nat (nat n))"

fun path_join :: "string \<Rightarrow> string list \<Rightarrow> string" where
  \<comment> \<open>\<open>os.path.join(a, *p)\<close> of \<open>posixpath\<close>\<close>
  "path_join a [] = a"
| "path_join a (b # p) =
     path_join (if startswith b ''/'' then b
                else if a = [] \<or> endswith a ''/'' then a @ b
                else a @ ''/'' @ b) p"

text \<open>
  The exceptions of the fetch, by the handler of \<open>download_page_content\<close> that catches
  them, each with its \<open>str(e)\<close>.
\<close>

datatype fetch_exn =
  FetchClientError string
| FetchTimeoutError
| FetchOtherException string

record fetch_response =
  fr_status :: int
  fr_content_type :: "string option"

text \<open>
  What the network, the file system and the clock answer to one fetch: the outcome of
  the GET request, of \<open>os.makedirs\<close>, of \<open>response.read()\<close> (the body) and of writing
  the file, the date stamp \<open>%Y%m%d\<close> and the time of day.
\<close>

record fetch_io =
  on_fetch :: "fetch_exn + fetch_response"
  on_makedirs :: "fetch_exn option"
  on_read :: "fetch_exn + string"
  on_write :: "fetch_exn option"
  today :: string
  fetch_now_iso :: string

definition is_accessible :: "bookmark \<Rightarrow> bool" where
  \<comment> \<open>\<open>bookmark['status'].get('accessible', False)\<close> as a condition\<close>
  "is_accessible bookmark = (st_accessible (bm_status bookmark) = Some True)"

definition fetch_target :: "bookmark \<Rightarrow> string" where
  \<comment> \<open>lines 41-45: the redirect target when there is one, else the bookmark's URL\<close>
  "fetch_target bookmark =
     (case st_redirect_url (bm_status bookmark) of
        Some redirect_url \<Rightarrow>
          if st_redirect (bm_status bookmark) = Some True \<and> redirect_url \<noteq> []
          then redirect_url else bm_url bookmark
      | None \<Rightarrow> bm_url bookmark)"

definition sanitized_path :: "string \<Rightarrow> string" where
  \<comment> \<open>lines 68-76\<close>
  "sanitized_path url =
     (let p = strip CHR ''/'' (path (urlparse url))
      in if p = [] then ''index''
         else (let p = replace CHR ''/'' CHR ''_'' p
               in if length p > 100 then take 100 p else p))"

definition file_extension :: "string \<Rightarrow> string" where
  \<comment> \<open>lines 87-93\<close>
  "file_extension content_type =
     (if py_in ''json'' content_type then ''.json''
      else if py_in ''xml'' content_type then ''.xml''
      else if py_in ''text/plain'' content_type then ''.txt''
      else ''.html'')"

definition content_filename :: "(string \<Rightarrow> string) \<Rightarrow> string \<Rightarrow> string \<Rightarrow> string \<Rightarrow> string" where
  \<comment> \<open>line 96; \<open>md5_hexdigest url\<close> stands for \<open>hashlib.md5(url.encode()).hexdigest()\<close>\<close>
  "content_filename md5_hexdigest url content_type timestamp =
     sanitized_path url @ ''_'' @ take 10 (md5_hexdigest url) @ ''_'' @ timestamp
       @ file_extension content_type"

definition failed_content :: "string \<Rightarrow> string \<Rightarrow> string \<Rightarrow> content" where
  "failed_content err date url =
     \<lparr>ct_downloaded = False, ct_path = None, ct_size = None, ct_mime_type = None,
      ct_download_date = Some date, ct_error = Some err, ct_url_used = Some url\<rparr>"

definition handle_fetch_exn :: "fetch_exn \<Rightarrow> string" where
  \<comment> \<open>lines 118-141: the \<open>error\<close> string of each handler\<close>
  "handle_fetch_exn e =
     (case e of
        FetchClientError msg \<Rightarrow> ''client_error: '' @ msg
      | FetchTimeoutError \<Rightarrow> ''timeout''
      | FetchOtherException msg \<Rightarrow> ''unexpected_error: '' @ msg)"

definition store_response ::
  "(string \<Rightarrow> string) \<Rightarrow> config \<Rightarrow> fetch_io \<Rightarrow> string \<Rightarrow> fetch_response \<Rightarrow> fetch_exn + content" where
  \<comment> \<open>lines 62-114: the body of the \<open>try\<close> after a response with status 200; the first
      exception ends it\<close>
  "store_response md5_hexdigest cfg io url resp =
     (let content_type = (case fr_content_type resp of None \<Rightarrow> ''text/html'' | Some t \<Rightarrow> t);
          domain = replace CHR '':'' CHR ''_'' (netloc (urlparse url))
      in case cfg_output_dir cfg of
           None \<Rightarrow> Inl (FetchOtherException (CHR 0x27 # ''output_dir'' @ [CHR 0x27]))
         | Some output_dir \<Rightarrow>
             (let content_dir = path_join output_dir [''data/content'', domain]
              in case on_makedirs io of
                   Some e \<Rightarrow> Inl e
                 | None \<Rightarrow>
                     (let filename = content_filename md5_hexdigest url content_type (today io);
                          file_path = path_join content_dir [filename]
                      in case on_read io of
                           Inl e \<Rightarrow> Inl e
                         | Inr body \<Rightarrow>
                             (case on_write io of
                                Some e \<Rightarrow> Inl e
                              | None \<Rightarrow>
                                  Inr \<lparr>ct_downloaded = True, ct_path = Some file_path,
                                       ct_size = Some (length body),
                                       ct_mime_type = Some content_type,
                                       ct_download_date = Some (fetch_now_iso io),
                                       ct_error = None, ct_url_used = Some url\<rparr>))))"

definition download_page_content ::
  "(string \<Rightarrow> string) \<Rightarrow> bookmark \<Rightarrow> config \<Rightarrow> fetch_io \<Rightarrow> bookmark \<times> request list" where
  "download_page_content md5_hexdigest bookmark cfg io =
     (if \<not> is_accessible bookmark then (bookmark, [])
      else (let url = fetch_target bookmark;
                result =
                  (case on_fetch io of
                     Inl e \<Rightarrow> Inl e
                   | Inr resp \<Rightarrow>
                       if fr_status resp \<noteq> 200
                       then Inr (failed_content (''status_code: '' @ str_int (fr_status resp))
                                   (fetch_now_iso io) url)
                       else store_response md5_hexdigest cfg io url resp)
            in (bookmark\<lparr>bm_content :=
                  (case result of
                     Inr c \<Rightarrow> c
                   | Inl e \<Rightarrow> failed_content (handle_fetch_exn e) (fetch_now_iso io) url)\<rparr>,
                [GET url True])))"

definition inaccessible_content :: "string \<Rightarrow> content" where
  \<comment> \<open>lines 219-223\<close>
  "inaccessible_content date =
     \<lparr>ct_downloaded = False, ct_path = None, ct_size = None, ct_mime_type = None,
      ct_download_date = Some date, ct_error = Some ''inaccessible_url'', ct_url_used = None\<rparr>"

definition group_accessible_by_domain :: "bookmark list \<Rightarrow> (string \<times> bookmark list) list" where
  \<comment> \<open>lines 186-195: bookmarks that are not accessible are skipped\<close>
  "group_accessible_by_domain bookmarks =
     foldl (\<lambda>domains bookmark.
              if \<not> is_accessible bookmark then domains
              else dict_append domains (bm_domain bookmark) bookmark) [] bookmarks"

definition fetch_tasks :: "real \<Rightarrow> bookmark list \<Rightarrow> (bookmark \<times> real) list" where
  \<comment> \<open>\<open>domain_delay = i * delay\<close>\<close>
  "fetch_tasks delay bookmarks =
     delayed_tasks (\<lambda>i. real i * delay) (group_accessible_by_domain bookmarks)"

definition download_content_with_delay ::
  "(string \<Rightarrow> string) \<Rightarrow> bookmark \<Rightarrow> config \<Rightarrow> fetch_io \<Rightarrow> real \<Rightarrow> bookmark \<times> request list" where
  "download_content_with_delay md5_hexdigest bookmark cfg io additional_delay =
     download_page_content md5_hexdigest bookmark cfg io"

text \<open>
  The fetch phase returns the updated bookmarks and, for the proofs about network
  calls, the requests of the phase, each with the bookmark whose task issued it.
\<close>

definition download_content_async ::
  "(string \<Rightarrow> string) \<Rightarrow> bookmark list \<Rightarrow> config \<Rightarrow> (bookmark \<Rightarrow> fetch_io) \<Rightarrow> (nat \<Rightarrow> nat)
     \<Rightarrow> bookmark list \<times> (bookmark \<times> request) list" where
  "download_content_async md5_hexdigest bookmarks cfg net finish =
     (let delay = get_delay cfg 2;
          tasks = map (\<lambda>(bookmark, domain_delay).
                         (bookmark,
                          download_content_with_delay md5_hexdigest bookmark cfg (net bookmark)
                            domain_delay))
                      (fetch_tasks delay bookmarks);
          completed = as_completed finish tasks;
          updated_bookmarks = map (\<lambda>(bookmark, result). fst result) completed;
          non_downloaded =
            map (\<lambda>bookmark.
                   bookmark\<lparr>bm_content := inaccessible_content (fetch_now_iso (net bookmark))\<rparr>)
                (filter (\<lambda>bookmark. \<not> is_accessible bookmark) bookmarks)
      in (sort_key bm_id (updated_bookmarks @ non_downloaded),
          concat (map (\<lambda>(bookmark, result). map (Pair bookmark) (snd result)) completed)))"

section \<open>Notions used to state the properties\<close>

definition probe_status :: "bookmark \<Rightarrow> probe_io \<Rightarrow> status" where
  \<comment> \<open>the \<open>status\<close> dictionary that one probe writes\<close>
  "probe_status bookmark io = bm_status (fst (check_url bookmark io))"

definition is_HTTP :: "request \<Rightarrow> bool" where
  "is_HTTP r = (case r of TLS_CONNECT name port \<Rightarrow> False | _ \<Rightarrow> True)"

definition is_GET :: "request \<Rightarrow> bool" where
  "is_GET r = (case r of GET u follow \<Rightarrow> True | _ \<Rightarrow> False)"

definition host_of_netloc :: "string \<Rightarrow> string" where
  \<comment> \<open>the host of a network location \<open>userinfo@host:port\<close>: what follows the last
      \<open>@\<close>, up to the first \<open>:\<close>\<close>
  "host_of_netloc n =
     takeWhile (\<lambda>c. c \<noteq> CHR '':'') (rev (takeWhile (\<lambda>c. c \<noteq> CHR ''@'') (rev n)))"

definition upto_last_slash :: "string \<Rightarrow> string" where
  \<comment> \<open>a path cut after its last \<open>/\<close>; empty when it has none\<close>
  "upto_last_slash p = rev (dropWhile (\<lambda>c. c \<noteq> CHR ''/'') (rev p))"

definition rank_within_domain :: "bookmark list \<Rightarrow> nat \<Rightarrow> nat" where
  \<comment> \<open>the 0-based position of the bookmark at index \<open>k\<close> among the bookmarks of the
      list that share its domain\<close>
  "rank_within_domain bookmarks k =
     length (filter (\<lambda>b. bm_domain b = bm_domain (bookmarks ! k)) (take k bookmarks))"

definition group_len :: "(string \<times> bookmark list) list \<Rightarrow> string \<Rightarrow> nat" where
  \<comment> \<open>\<open>len(domains[d])\<close>, and 0 when \<open>d\<close> is not a key\<close>
  "group_len domains d = (case map_of domains d of None \<Rightarrow> 0 | Some bs \<Rightarrow> length bs)"

subsection \<open>Example inputs\<close>

definition ex_unprobed :: "int \<Rightarrow> string \<Rightarrow> string \<Rightarrow> bookmark" where
  \<comment> \<open>a bookmark as the extractor writes it\<close>
  "ex_unprobed i url d =
     \<lparr>bm_id = i, bm_url = url, bm_domain = d,
      bm_status = initial_status, bm_content = initial_content\<rparr>"

definition ex_bookmark :: bookmark where
  "ex_bookmark = ex_unprobed 1 ''https://a.b/x/y'' ''a.b''"

definition ex_response :: "int \<Rightarrow> string option \<Rightarrow> exn + response" where
  "ex_response s l = Inr \<lparr>resp_status = s, resp_location = l\<rparr>"

definition ex_io :: "exn + response \<Rightarrow> exn + response \<Rightarrow> probe_io" where
  \<comment> \<open>a network in which the handshake succeeds with \<open>a.b\<close> on port 443 and with no
      other name or port\<close>
  "ex_io h g =
     \<lparr>on_head = h, on_get = g, on_handshake = (\<lambda>name port. name = ''a.b'' \<and> port = 443),
      elapsed = 1 / 4, now_iso = ''2024-01-01T00:00:00''\<rparr>"

definition ex_ported :: bookmark where
  \<comment> \<open>a bookmark whose URL names a port\<close>
  "ex_ported = ex_unprobed 3 ''https://a.b:8443/x'' ''a.b:8443''"

definition ex_a :: bookmark where
  \<comment> \<open>a probed bookmark of \<open>x.com\<close> that answered 404 and whose follow-up GET timed out\<close>
  "ex_a =
     fst (check_url (ex_unprobed 1 ''http://x.com/a'' ''x.com'')
            (ex_io (ex_response 404 None) (Inl TimeoutError)))"

definition ex_b :: bookmark where
  \<comment> \<open>a probed bookmark of \<open>x.com\<close> that answered 200\<close>
  "ex_b =
     fst (check_url (ex_unprobed 2 ''http://x.com/b'' ''x.com'')
            (ex_io (ex_response 200 None) (Inl TimeoutError)))"

definition ex_cfg :: config where
  "ex_cfg = \<lparr>cfg_timeout = Some 10, cfg_delay = Some 1, cfg_user_agent = None, cfg_output_dir = Some ''output''\<rparr>"

definition ex_md5 :: "string \<Rightarrow> string" where
  "ex_md5 url = ''0123456789abcdef0123456789abcdef''"

definition ex_fetch_io :: "string option \<Rightarrow> fetch_io" where
  "ex_fetch_io t =
     \<lparr>on_fetch = Inr \<lparr>fr_status = 200, fr_content_type = t\<rparr>, on_makedirs = None,
      on_read = Inr ''{}'', on_write = None, today = ''20240101'',
      fetch_now_iso = ''2024-01-01T00:00:01''\<rparr>"

section \<open>Strings: splitting and joining a path\<close>

lemma split_not_Nil: "split sep s \<noteq> []"
  by (induction s) (auto split: list.splits)

lemma split_no_sep: "sep \<notin> set s \<Longrightarrow> split sep s = [s]"
  by (induction s) auto

lemma butlast_split_Nil: "butlast (split sep s) = [] \<longleftrightarrow> sep \<notin> set s"
proof (induction s)
  case Nil
  then show ?case by simp
next
  case (Cons c s)
  then show ?case
    using split_not_Nil [of sep s] by (auto split: list.splits)
qed

lemma join_Cons_Cons: "join sep ((c # w) # ws) = c # join sep (w # ws)"
  by (cases ws) auto

lemma upto_last_slash_Cons:
  "upto_last_slash (c # p) =
     (if CHR ''/'' \<in> set p then c # upto_last_slash p
      else if c = CHR ''/'' then ''/'' else [])"
  by (auto simp: upto_last_slash_def dropWhile_append)

text \<open>
  Dropping the last segment of a path that contains a slash, as the probe does it with
  \<open>split\<close> and \<open>join\<close>, cuts the path after its last slash.
\<close>

lemma directory_of_path:
  "CHR ''/'' \<in> set p \<Longrightarrow>
     join ''/'' (butlast (split CHR ''/'' p)) @ ''/'' = upto_last_slash p"
proof (induction p)
  case Nil
  then show ?case by simp
next
  case (Cons c p)
  show ?case
  proof (cases "CHR ''/'' \<in> set p")
    case True
    then have ih: "join ''/'' (butlast (split CHR ''/'' p)) @ ''/'' = upto_last_slash p"
      using Cons.IH by simp
    from True have ne: "butlast (split CHR ''/'' p) \<noteq> []"
      by (simp add: butlast_split_Nil)
    show ?thesis
    proof (cases "c = CHR ''/''")
      case c: True
      obtain w ws where b: "butlast (split CHR ''/'' p) = w # ws"
        using ne by (cases "butlast (split CHR ''/'' p)") auto
      show ?thesis
        using c True ih b split_not_Nil [of "CHR ''/''" p]
        by (simp add: upto_last_slash_Cons)
    next
      case c: False
      obtain w ws where s: "split CHR ''/'' p = w # ws"
        using split_not_Nil [of "CHR ''/''" p] by (cases "split CHR ''/'' p") auto
      with ne have ws: "ws \<noteq> []" by auto
      show ?thesis
        using c True ih s ws by (simp add: upto_last_slash_Cons join_Cons_Cons)
    qed
  next
    case False
    with Cons.prems have c: "c = CHR ''/''" by simp
    show ?thesis
      using c False by (simp add: upto_last_slash_Cons split_no_sep)
  qed
qed

lemma directory_without_slash:
  "CHR ''/'' \<notin> set p \<Longrightarrow> join ''/'' (butlast (split CHR ''/'' p)) @ ''/'' = ''/''"
  by (simp add: split_no_sep)

lemma endswith_slash:
  assumes "endswith p ''/''"
  shows "upto_last_slash p = p" and "CHR ''/'' \<in> set p"
  using assms by (cases p rule: rev_cases; simp add: endswith_def upto_last_slash_def)+

lemma resolve_relative_eq:
  "resolve_relative url target =
     scheme (urlparse url) @ ''://'' @ netloc (urlparse url) @
       (if startswith target ''/'' then target
        else if CHR ''/'' \<in> set (path (urlparse url))
             then upto_last_slash (path (urlparse url)) @ target
             else ''/'' @ target)"
proof (cases "CHR ''/'' \<in> set (path (urlparse url))")
  case True
  then show ?thesis
    using endswith_slash(1) [of "path (urlparse url)"] directory_of_path [OF True]
    by (simp add: resolve_relative_def Let_def)
next
  case False
  then show ?thesis
    using endswith_slash(2) [of "path (urlparse url)"] directory_without_slash [OF False]
    by (auto simp: resolve_relative_def Let_def)
qed

lemma urlparse_example:
  "urlparse ''https://a.b/x/y'' = \<lparr>scheme = ''https'', netloc = ''a.b'', path = ''/x/y''\<rparr>"
  by code_simp

section \<open>One probe\<close>

lemma check_url_head_raises:
  "on_head io = Inl e \<Longrightarrow>
     check_url b io =
       (b\<lparr>bm_status :=
           \<lparr>st_code = Some (handle_exn e),
            st_accessible = Some (200 \<le> handle_exn e \<and> handle_exn e < 400),
            st_redirect = Some (300 \<le> handle_exn e \<and> handle_exn e < 400),
            st_redirect_url = None, st_response_time = Some (elapsed io),
            st_ssl_valid = None, st_last_checked = Some (now_iso io)\<rparr>\<rparr>,
        [HEAD (bm_url b) False])"
  by (simp add: check_url_def or0_def)

lemma check_url_head_returns:
  "on_head io = Inr resp \<Longrightarrow>
     check_url b io =
       (let r = confirm_get (bm_url b) io (resp_status resp) (head_redirect_url (bm_url b) resp);
            c = fst r
        in (b\<lparr>bm_status :=
              \<lparr>st_code = Some c,
               st_accessible = Some (200 \<le> c \<and> c < 400),
               st_redirect = Some (300 \<le> c \<and> c < 400),
               st_redirect_url = fst (snd r), st_response_time = Some (elapsed io),
               st_ssl_valid = fst (ssl_check (bm_url b) io),
               st_last_checked = Some (now_iso io)\<rparr>\<rparr>,
            HEAD (bm_url b) False # snd (snd r) @ snd (ssl_check (bm_url b) io)))"
  by (simp add: check_url_def or0_def Let_def split: prod.splits)

section \<open>The scheduler and the phases\<close>

lemma mset_as_completed: "mset (as_completed finish xs) = mset xs"
proof -
  have unzip: "map snd (zip (map finish [0..<length xs]) xs) = xs"
    by simp
  have "mset (map snd (sort_key fst (zip (map finish [0..<length xs]) xs)))
      = mset (map snd (zip (map finish [0..<length xs]) xs))"
    by (simp only: mset_map mset_sort)
  then show ?thesis
    by (simp only: as_completed_def unzip)
qed

lemma set_as_completed: "set (as_completed finish xs) = set xs"
  using mset_as_completed [of finish xs] by (metis set_mset_mset)

lemma delayed_tasks_Nil: "delayed_tasks f [] = []"
  by (simp add: delayed_tasks_def)

lemma delayed_tasks_Cons:
  "delayed_tasks f ((k, bs) # rest) =
     map (\<lambda>(i, b). (b, f i)) (enumerate 0 bs) @ delayed_tasks f rest"
  by (simp add: delayed_tasks_def)

lemma group_len_Nil: "group_len [] d = 0"
  by (simp add: group_len_def)

lemma group_len_dict_append:
  "group_len (dict_append g d b) d' = group_len g d' + (if d = d' then 1 else 0)"
  by (induction g d b rule: dict_append.induct) (auto simp: group_len_def)

lemma mset_delayed_tasks_dict_append:
  "mset (delayed_tasks f (dict_append g d b)) =
     add_mset (b, f (group_len g d)) (mset (delayed_tasks f g))"
proof (induction g d b rule: dict_append.induct)
  case (1 d b)
  then show ?case
    by (simp add: delayed_tasks_Cons delayed_tasks_Nil group_len_def)
next
  case (2 k bs rest d b)
  then show ?case
    by (auto simp: delayed_tasks_Cons group_len_def enumerate_append_eq)
qed

lemma rank_within_domain_0: "rank_within_domain (b # bs) 0 = 0"
  by (simp add: rank_within_domain_def)

lemma rank_within_domain_Suc:
  "rank_within_domain (b # bs) (Suc k) =
     (if bm_domain b = bm_domain (bs ! k) then 1 else 0) + rank_within_domain bs k"
  by (simp add: rank_within_domain_def)

text \<open>
  The invariant of the grouping loop: the bookmark at index \<open>k\<close> of the remaining
  input gets the position that is the length of its domain's group so far plus its rank
  in the remaining input.
\<close>

lemma mset_delayed_tasks_foldl:
  "mset (delayed_tasks f
      (foldl (\<lambda>domains bookmark. dict_append domains (bm_domain bookmark) bookmark) g bs)) =
   mset (delayed_tasks f g) +
   mset (map (\<lambda>k. (bs ! k, f (group_len g (bm_domain (bs ! k)) + rank_within_domain bs k)))
          [0..<length bs])"
proof (induction bs arbitrary: g)
  case Nil
  then show ?case by simp
next
  case (Cons b bs)
  have eq: "map (\<lambda>k. (bs ! k,
                 f (group_len (dict_append g (bm_domain b) b) (bm_domain (bs ! k))
                    + rank_within_domain bs k))) [0..<length bs]
          = map (\<lambda>k. ((b # bs) ! Suc k,
                 f (group_len g (bm_domain ((b # bs) ! Suc k))
                    + rank_within_domain (b # bs) (Suc k)))) [0..<length bs]"
    by (rule map_cong) (auto simp: group_len_dict_append rank_within_domain_Suc)
  show ?case
    using Cons.IH [of "dict_append g (bm_domain b) b"]
    by (simp add: eq map_upt_Suc mset_delayed_tasks_dict_append rank_within_domain_0
        del: upt_Suc)
qed

lemma mset_delayed_tasks_group:
  "mset (delayed_tasks f (group_by_domain bs)) =
   mset (map (\<lambda>k. (bs ! k, f (rank_within_domain bs k))) [0..<length bs])"
  using mset_delayed_tasks_foldl [of f "[]" bs]
  by (simp add: group_by_domain_def delayed_tasks_Nil group_len_Nil)

lemma group_accessible_foldl:
  "foldl (\<lambda>domains bookmark.
            if \<not> is_accessible bookmark then domains
            else dict_append domains (bm_domain bookmark) bookmark) g bs
   = foldl (\<lambda>domains bookmark. dict_append domains (bm_domain bookmark) bookmark) g
       (filter is_accessible bs)"
  by (induction bs arbitrary: g) auto

lemma group_accessible_eq:
  "group_accessible_by_domain bs = group_by_domain (filter is_accessible bs)"
  by (simp add: group_accessible_by_domain_def group_by_domain_def group_accessible_foldl)

lemma mset_fst_delayed_tasks_group:
  "mset (map fst (delayed_tasks f (group_by_domain bs))) = mset bs"
proof -
  have "mset (map fst (delayed_tasks f (group_by_domain bs)))
      = image_mset fst (mset (delayed_tasks f (group_by_domain bs)))"
    by simp
  also have "\<dots> = mset (map fst (map (\<lambda>k. (bs ! k, f (rank_within_domain bs k))) [0..<length bs]))"
    by (simp only: mset_delayed_tasks_group mset_map)
  also have "\<dots> = mset (map (\<lambda>k. bs ! k) [0..<length bs])"
    by (simp add: comp_def)
  also have "\<dots> = mset bs"
    by (simp add: map_nth)
  finally show ?thesis .
qed

lemma mset_check_urls_async:
  "mset (check_urls_async bookmarks cfg net finish) =
     image_mset (\<lambda>b. fst (check_url b (net b))) (mset bookmarks)"
proof -
  have "mset (check_urls_async bookmarks cfg net finish)
      = image_mset (\<lambda>(b, dd). fst (check_url b (net b)))
          (mset (probe_tasks (get_delay cfg 1) bookmarks))"
    by (simp add: check_urls_async_def mset_as_completed check_url_with_delay_def Let_def)
  also have "\<dots> = image_mset (\<lambda>b. fst (check_url b (net b)))
      (image_mset fst (mset (probe_tasks (get_delay cfg 1) bookmarks)))"
    by (simp add: image_mset.compositionality comp_def case_prod_unfold)
  also have "\<dots> = image_mset (\<lambda>b. fst (check_url b (net b))) (mset bookmarks)"
    using mset_fst_delayed_tasks_group [of "\<lambda>i. real i * get_delay cfg 1 / 2" bookmarks]
    by (simp add: probe_tasks_def)
  finally show ?thesis .
qed

lemma length_check_urls_async:
  "length (check_urls_async bookmarks cfg net finish) = length bookmarks"
proof -
  have "size (mset (check_urls_async bookmarks cfg net finish)) = size (mset bookmarks)"
    by (simp only: mset_check_urls_async size_image_mset)
  then show ?thesis by simp
qed

lemma ex_a_eq:
  "ex_a =
     \<lparr>bm_id = 1, bm_url = ''http://x.com/a'', bm_domain = ''x.com'',
      bm_status =
        \<lparr>st_code = Some 404, st_accessible = Some False, st_redirect = Some False,
         st_redirect_url = None, st_response_time = Some (1 / 4), st_ssl_valid = None,
         st_last_checked = Some ''2024-01-01T00:00:00''\<rparr>,
      bm_content = initial_content\<rparr>"
  by (simp add: ex_a_def ex_unprobed_def check_url_head_returns ex_io_def ex_response_def
      confirm_get_def head_redirect_url_def ssl_check_def startswith_def Let_def)

lemma ex_b_eq:
  "ex_b =
     \<lparr>bm_id = 2, bm_url = ''http://x.com/b'', bm_domain = ''x.com'',
      bm_status =
        \<lparr>st_code = Some 200, st_accessible = Some True, st_redirect = Some False,
         st_redirect_url = None, st_response_time = Some (1 / 4), st_ssl_valid = None,
         st_last_checked = Some ''2024-01-01T00:00:00''\<rparr>,
      bm_content = initial_content\<rparr>"
  by (simp add: ex_b_def ex_unprobed_def check_url_head_returns ex_io_def ex_response_def
      confirm_get_def head_redirect_url_def ssl_check_def startswith_def Let_def)

section \<open>Properties of the probe\<close>

text \<open>
  Claim C2, as amended. For every bookmark, the \<open>ssl_valid\<close> written by the probe is
  null exactly when the URL does not start with \<open>https://\<close> or the HEAD request raised.
  For a URL that starts with \<open>https://\<close>, whose HEAD request returned a response and
  whose network location is just a host (no userinfo, no port), it is a boolean: the
  probe runs one TLS handshake against that host on port 443, under the trusted
  root-certificate bundle, and \<open>ssl_valid\<close> is true iff that handshake completes without
  an exception, whatever the follow-up GET request did. (A network location with userinfo
  or a port is left out: the probe hands it whole to the connection.)
\<close>

theorem ssl_valid_after_probe:
  "(st_ssl_valid (probe_status b io) = None)
     = (\<not> startswith (bm_url b) ''https://'' \<or> (\<exists>e. on_head io = Inl e))
   \<and> (\<forall>resp. on_head io = Inr resp \<and> startswith (bm_url b) ''https://''
          \<and> netloc (urlparse (bm_url b)) = host_of_netloc (netloc (urlparse (bm_url b)))
        \<longrightarrow> st_ssl_valid (probe_status b io)
              = Some (on_handshake io (host_of_netloc (netloc (urlparse (bm_url b)))) 443)
            \<and> filter (\<lambda>r. \<not> is_HTTP r) (snd (check_url b io))
              = [TLS_CONNECT (host_of_netloc (netloc (urlparse (bm_url b)))) 443])"
proof (cases "on_head io")
  case (Inl e)
  then show ?thesis
    by (simp add: probe_status_def check_url_head_raises)
next
  case (Inr resp)
  then show ?thesis
    by (simp add: probe_status_def check_url_head_returns ssl_check_def confirm_get_def
        is_HTTP_def Let_def split: sum.splits)
qed

text \<open>
  The scenario: \<open>https://a.b/x/y\<close> answers the HEAD request with 404 and the follow-up
  GET request times out; the handshake goes to \<open>a.b\<close> on port 443 and succeeds.
\<close>

theorem ssl_valid_after_probe_witness:
  "st_ssl_valid (probe_status ex_bookmark (ex_io (ex_response 404 None) (Inl TimeoutError)))
     = Some True
   \<and> filter (\<lambda>r. \<not> is_HTTP r)
        (snd (check_url ex_bookmark (ex_io (ex_response 404 None) (Inl TimeoutError))))
     = [TLS_CONNECT ''a.b'' 443]"
proof -
  have h: "on_head (ex_io (ex_response 404 None) (Inl TimeoutError))
      = Inr \<lparr>resp_status = 404, resp_location = None\<rparr>"
    by (simp add: ex_io_def ex_response_def)
  have u: "bm_url ex_bookmark = ''https://a.b/x/y''"
    by (simp add: ex_bookmark_def ex_unprobed_def)
  have n: "netloc (urlparse ''https://a.b/x/y'') = ''a.b''" "host_of_netloc ''a.b'' = ''a.b''"
    by (simp_all add: urlparse_example host_of_netloc_def)
  have k: "on_handshake (ex_io (ex_response 404 None) (Inl TimeoutError)) ''a.b'' 443"
    by (simp add: ex_io_def)
  from ssl_valid_after_probe [of ex_bookmark "ex_io (ex_response 404 None) (Inl TimeoutError)"]
  show ?thesis
    by (simp add: h u n k startswith_def)
qed

text \<open>
  The claim as stated fails in two places. The certificate check stands inside the \<open>try\<close>
  block after the HEAD request, so a HEAD request that raises (here a timeout) leaves
  \<open>ssl_valid\<close> of an \<open>https\<close> URL null. And the handshake does not go to the host of the
  URL: for \<open>https://a.b:8443/x\<close> the host is \<open>a.b\<close>, with which the handshake on port
  443 succeeds, but the probe connects to the name \<open>a.b:8443\<close> on port 443 and writes
  \<open>ssl_valid = false\<close>.
\<close>

theorem ssl_valid_null_for_https:
  "startswith (bm_url ex_bookmark) ''https://''
   \<and> st_ssl_valid (probe_status ex_bookmark (ex_io (Inl TimeoutError) (Inl TimeoutError))) = None
   \<and> startswith (bm_url ex_ported) ''https://''
   \<and> host_of_netloc (netloc (urlparse (bm_url ex_ported))) = ''a.b''
   \<and> on_handshake (ex_io (ex_response 200 None) (Inl TimeoutError)) ''a.b'' 443
   \<and> snd (check_url ex_ported (ex_io (ex_response 200 None) (Inl TimeoutError)))
       = [HEAD ''https://a.b:8443/x'' False, TLS_CONNECT ''a.b:8443'' 443]
   \<and> st_ssl_valid (probe_status ex_ported (ex_io (ex_response 200 None) (Inl TimeoutError)))
       = Some False"
proof -
  have p: "urlparse ''https://a.b:8443/x''
      = \<lparr>scheme = ''https'', netloc = ''a.b:8443'', path = ''/x''\<rparr>"
    by code_simp
  have 1: "startswith (bm_url ex_bookmark) ''https://''
     \<and> st_ssl_valid (probe_status ex_bookmark (ex_io (Inl TimeoutError) (Inl TimeoutError))) = None"
    by (simp add: probe_status_def check_url_head_raises ex_io_def ex_bookmark_def
        ex_unprobed_def startswith_def)
  have 2: "startswith (bm_url ex_ported) ''https://''
     \<and> host_of_netloc (netloc (urlparse (bm_url ex_ported))) = ''a.b''
     \<and> on_handshake (ex_io (ex_response 200 None) (Inl TimeoutError)) ''a.b'' 443"
    by (simp add: ex_ported_def ex_unprobed_def startswith_def p host_of_netloc_def ex_io_def)
  have 3: "snd (check_url ex_ported (ex_io (ex_response 200 None) (Inl TimeoutError)))
       = [HEAD ''https://a.b:8443/x'' False, TLS_CONNECT ''a.b:8443'' 443]
     \<and> st_ssl_valid (probe_status ex_ported (ex_io (ex_response 200 None) (Inl TimeoutError)))
       = Some False"
    by (simp add: probe_status_def check_url_head_returns ex_io_def ex_response_def
        ex_ported_def ex_unprobed_def confirm_get_def head_redirect_url_def ssl_check_def
        startswith_def p Let_def)
  from 1 2 3 show ?thesis by simp
qed

text \<open>
  Claim C5, as amended. For every probe whose HEAD response has a code in [300,400) and a
  non-empty redirect target that starts with neither \<open>http://\<close> nor \<open>https://\<close>: a
  target starting with \<open>/\<close> is appended to scheme and network location of the request
  URL; any other target is appended to scheme, network location and the request path cut
  after its last \<open>/\<close> (to \<open>/\<close> when the path has none).
\<close>

theorem relative_redirect_resolution:
  assumes "on_head io = Inr resp"
    and "300 \<le> resp_status resp" and "resp_status resp < 400"
    and "resp_location resp = Some target"
    and "target \<noteq> []" and "\<not> absolute_url target"
  shows "st_redirect_url (probe_status b io) =
     Some (scheme (urlparse (bm_url b)) @ ''://'' @ netloc (urlparse (bm_url b)) @
       (if startswith target ''/'' then target
        else if CHR ''/'' \<in> set (path (urlparse (bm_url b)))
             then upto_last_slash (path (urlparse (bm_url b))) @ target
             else ''/'' @ target))"
  using assms
  by (simp add: probe_status_def check_url_head_returns confirm_get_def head_redirect_url_def
      resolve_relative_eq Let_def)

text \<open>
  The two scenarios: base \<open>https://a.b/x/y\<close> with target \<open>z\<close> resolves to
  \<open>https://a.b/x/z\<close>, and with target \<open>/q\<close> to \<open>https://a.b/q\<close>.
\<close>

theorem relative_redirect_resolution_witness:
  "st_redirect_url (probe_status ex_bookmark (ex_io (ex_response 301 (Some ''z'')) (Inl TimeoutError)))
     = Some ''https://a.b/x/z''
   \<and> st_redirect_url (probe_status ex_bookmark (ex_io (ex_response 301 (Some ''/q'')) (Inl TimeoutError)))
     = Some ''https://a.b/q''"
proof -
  have 1: "st_redirect_url (probe_status ex_bookmark (ex_io (ex_response 301 (Some ''z'')) (Inl TimeoutError)))
     = Some ''https://a.b/x/z''"
    using relative_redirect_resolution [of "ex_io (ex_response 301 (Some ''z'')) (Inl TimeoutError)"
        "\<lparr>resp_status = 301, resp_location = Some ''z''\<rparr>" "''z''" ex_bookmark]
    by (simp add: ex_io_def ex_response_def ex_bookmark_def ex_unprobed_def absolute_url_def
        startswith_def urlparse_example upto_last_slash_def)
  have 2: "st_redirect_url (probe_status ex_bookmark (ex_io (ex_response 301 (Some ''/q'')) (Inl TimeoutError)))
     = Some ''https://a.b/q''"
    using relative_redirect_resolution [of "ex_io (ex_response 301 (Some ''/q'')) (Inl TimeoutError)"
        "\<lparr>resp_status = 301, resp_location = Some ''/q''\<rparr>" "''/q''" ex_bookmark]
    by (simp add: ex_io_def ex_response_def ex_bookmark_def ex_unprobed_def absolute_url_def
        startswith_def urlparse_example upto_last_slash_def)
  from 1 2 show ?thesis by simp
qed

text \<open>
  The claim as stated fails in two places. An empty \<open>Location\<close> header is kept as it
  is (the probe resolves a target only when it is non-empty), where the claim gives
  \<open>https://a.b/x/\<close>. And when the code in [300,400) comes from the follow-up GET request
  (HEAD answered 404, GET answered 300 with \<open>Location: /q\<close>), the target is stored
  unresolved, where the claim gives \<open>https://a.b/q\<close>.
\<close>

theorem redirect_target_unresolved:
  "st_code (probe_status ex_bookmark (ex_io (ex_response 301 (Some [])) (Inl TimeoutError)))
     = Some 301
   \<and> st_redirect_url (probe_status ex_bookmark (ex_io (ex_response 301 (Some [])) (Inl TimeoutError)))
     = Some []
   \<and> st_code (probe_status ex_bookmark (ex_io (ex_response 404 None) (ex_response 300 (Some ''/q''))))
     = Some 300
   \<and> st_redirect_url (probe_status ex_bookmark (ex_io (ex_response 404 None) (ex_response 300 (Some ''/q''))))
     = Some ''/q''"
  by (simp add: probe_status_def check_url_head_returns confirm_get_def head_redirect_url_def
      ex_io_def ex_response_def Let_def)

text \<open>
  Claim C6. For every probe whose HEAD response has a code of 400 or more, exactly one
  follow-up GET request is issued, to the same URL and following redirects. If it returns a response, its status
  is the final code and its redirect target (read when that status is in [300,400)) the
  final target; if it raises, the code of the HEAD response is kept. \<open>accessible\<close> follows
  the final code.
\<close>

theorem confirm_get_fallback:
  assumes "on_head io = Inr resp" and "400 \<le> resp_status resp"
  shows "length (filter is_GET (snd (check_url b io))) = 1
    \<and> GET (bm_url b) True \<in> set (snd (check_url b io))
    \<and> (case on_get io of
          Inr g \<Rightarrow>
            st_code (probe_status b io) = Some (resp_status g)
            \<and> st_redirect_url (probe_status b io) =
                (if 300 \<le> resp_status g \<and> resp_status g < 400 then resp_location g else None)
            \<and> st_accessible (probe_status b io) = Some (200 \<le> resp_status g \<and> resp_status g < 400)
        | Inl e \<Rightarrow>
            st_code (probe_status b io) = Some (resp_status resp)
            \<and> st_redirect_url (probe_status b io) = None
            \<and> st_accessible (probe_status b io) = Some False)"
  using assms
  by (simp add: check_url_head_returns probe_status_def confirm_get_def head_redirect_url_def
      ssl_check_def is_GET_def Let_def split: sum.splits)

text \<open>
  The scenario: HEAD answers 404 and the follow-up GET answers 200; the final code is 200
  and the bookmark is accessible.
\<close>

theorem confirm_get_fallback_witness:
  "st_code (probe_status ex_bookmark (ex_io (ex_response 404 None) (ex_response 200 None))) = Some 200
   \<and> st_accessible (probe_status ex_bookmark (ex_io (ex_response 404 None) (ex_response 200 None)))
       = Some True
   \<and> length (filter is_GET
        (snd (check_url ex_bookmark (ex_io (ex_response 404 None) (ex_response 200 None))))) = 1"
  using confirm_get_fallback [of "ex_io (ex_response 404 None) (ex_response 200 None)"
      "\<lparr>resp_status = 404, resp_location = None\<rparr>" ex_bookmark]
  by (simp add: ex_io_def ex_response_def)

section \<open>Properties of the scheduler\<close>

text \<open>
  Claim C9, as amended. Each phase creates one task for each bookmark it schedules, and
  the start delay of a task is the 0-based rank of its bookmark among the scheduled
  bookmarks of the same domain, multiplied by \<open>d/2\<close> in the probe phase and by \<open>d\<close> in
  the fetch phase. The probe phase schedules every bookmark; the fetch phase schedules
  the accessible bookmarks only, so its ranks count accessible bookmarks. Two bookmarks
  of \<open>x.com\<close> of ranks 0 and 1 under the probe delay \<open>d = 1\<close> start 0.5 apart.
\<close>

theorem start_delays:
  "mset (probe_tasks d bookmarks) =
     mset (map (\<lambda>k. (bookmarks ! k, real (rank_within_domain bookmarks k) * d / 2))
            [0..<length bookmarks])
   \<and> mset (fetch_tasks d bookmarks) =
     mset (map (\<lambda>k. (filter is_accessible bookmarks ! k,
                      real (rank_within_domain (filter is_accessible bookmarks) k) * d))
            [0..<length (filter is_accessible bookmarks)])
   \<and> probe_tasks 1 [ex_a, ex_b] = [(ex_a, 0), (ex_b, 1 / 2)]"
proof -
  have "probe_tasks 1 [ex_a, ex_b] = [(ex_a, 0), (ex_b, 1 / 2)]"
    by (simp add: probe_tasks_def group_by_domain_def ex_a_eq ex_b_eq delayed_tasks_Cons
        delayed_tasks_Nil)
  then show ?thesis
    by (simp add: probe_tasks_def fetch_tasks_def group_accessible_eq mset_delayed_tasks_group)
qed

text \<open>
  The claim as stated fails in the fetch phase: \<open>ex_b\<close> has rank 1 among the bookmarks
  of its domain, the inaccessible \<open>ex_a\<close> before it gets no task, and the only task of
  the phase starts \<open>ex_b\<close> with delay 0, not \<open>1 * d = 2\<close>.
\<close>

theorem fetch_rank_skips_inaccessible:
  "rank_within_domain [ex_a, ex_b] 1 = 1 \<and> fetch_tasks 2 [ex_a, ex_b] = [(ex_b, 0)]"
  by (simp add: rank_within_domain_def fetch_tasks_def group_accessible_by_domain_def
      is_accessible_def ex_a_eq ex_b_eq delayed_tasks_Cons delayed_tasks_Nil)

section \<open>Properties of the phases\<close>

lemma probe_status_fields:
  "\<exists>c t d. st_code (probe_status b io) = Some c
     \<and> st_accessible (probe_status b io) = Some (200 \<le> c \<and> c < 400)
     \<and> st_redirect (probe_status b io) = Some (300 \<le> c \<and> c < 400)
     \<and> st_response_time (probe_status b io) = Some t
     \<and> st_last_checked (probe_status b io) = Some d"
  by (cases "on_head io")
    (simp_all add: probe_status_def check_url_head_raises check_url_head_returns Let_def)

lemma set_check_urls_async:
  "set (check_urls_async bookmarks cfg net finish) = (\<lambda>b. fst (check_url b (net b))) ` set bookmarks"
proof -
  have "set_mset (mset (check_urls_async bookmarks cfg net finish))
      = set_mset (image_mset (\<lambda>b. fst (check_url b (net b))) (mset bookmarks))"
    by (simp only: mset_check_urls_async)
  then show ?thesis by simp
qed

text \<open>
  Claim C1, as amended. For every bookmark, after the probe phase the status is fully
  populated (code, \<open>accessible\<close>, \<open>redirect\<close>, response time and time of the check are
  set) and satisfies \<open>accessible = (200 \<le> code < 400)\<close> and
  \<open>redirect = (300 \<le> code < 400)\<close>; so a code of 301 gives \<open>redirect = true\<close> and
  \<open>accessible = true\<close>.
\<close>

theorem probe_status_consistent:
  assumes "b' \<in> set (check_urls_async bookmarks cfg net finish)"
  shows "\<exists>c t d. st_code (bm_status b') = Some c
     \<and> st_accessible (bm_status b') = Some (200 \<le> c \<and> c < 400)
     \<and> st_redirect (bm_status b') = Some (300 \<le> c \<and> c < 400)
     \<and> st_response_time (bm_status b') = Some t
     \<and> st_last_checked (bm_status b') = Some d
     \<and> (c = 301 \<longrightarrow> st_redirect (bm_status b') = Some True \<and> st_accessible (bm_status b') = Some True)"
proof -
  from assms obtain b where b': "b' = fst (check_url b (net b))"
    by (auto simp: set_check_urls_async)
  obtain c t d where f: "st_code (probe_status b (net b)) = Some c"
     "st_accessible (probe_status b (net b)) = Some (200 \<le> c \<and> c < 400)"
     "st_redirect (probe_status b (net b)) = Some (300 \<le> c \<and> c < 400)"
     "st_response_time (probe_status b (net b)) = Some t"
     "st_last_checked (probe_status b (net b)) = Some d"
    using probe_status_fields [of b "net b"] by blast
  then show ?thesis
    unfolding b' probe_status_def by auto
qed

lemma check_urls_async_single:
  "check_urls_async [b] cfg net finish = [fst (check_url b (net b))]"
  by (simp add: check_urls_async_def probe_tasks_def group_by_domain_def delayed_tasks_Cons
      delayed_tasks_Nil as_completed_def check_url_with_delay_def)

text \<open>
  Claim C4. When the HEAD request of a bookmark raises, the probe phase still returns a
  record for that bookmark, whose status code is 0 for a connection failure, the carried
  status for an error that carries one, 408 for a timeout, -1 for any other
  client-library error and -2 for any other exception, with no redirect target and no
  certificate verdict, and with the response time and the time of the check set. The
  phase returns one record for each bookmark, whatever the requests of the batch do.
\<close>

theorem probe_exception_codes:
  assumes "b \<in> set bookmarks" and "on_head (net b) = Inl e"
  shows "(\<exists>b' \<in> set (check_urls_async bookmarks cfg net finish).
            bm_id b' = bm_id b \<and> bm_url b' = bm_url b
            \<and> st_code (bm_status b') =
                Some (case e of
                        ClientConnectorError \<Rightarrow> 0
                      | ClientResponseError s \<Rightarrow> s
                      | ClientError \<Rightarrow> - 1
                      | TimeoutError \<Rightarrow> 408
                      | OtherException \<Rightarrow> - 2)
            \<and> st_redirect_url (bm_status b') = None
            \<and> st_ssl_valid (bm_status b') = None
            \<and> st_response_time (bm_status b') = Some (elapsed (net b))
            \<and> st_last_checked (bm_status b') = Some (now_iso (net b)))
     \<and> length (check_urls_async bookmarks cfg net finish) = length bookmarks
     \<and> st_code (probe_status b0 (io\<lparr>on_head := Inl ClientConnectorError\<rparr>)) = Some 0
     \<and> st_code (probe_status b0 (io\<lparr>on_head := Inl (ClientResponseError s0)\<rparr>)) = Some s0
     \<and> st_code (probe_status b0 (io\<lparr>on_head := Inl TimeoutError\<rparr>)) = Some 408
     \<and> st_code (probe_status b0 (io\<lparr>on_head := Inl ClientError\<rparr>)) = Some (- 1)
     \<and> st_code (probe_status b0 (io\<lparr>on_head := Inl OtherException\<rparr>)) = Some (- 2)"
proof -
  from assms(1) have mem: "fst (check_url b (net b)) \<in> set (check_urls_async bookmarks cfg net finish)"
    by (simp add: set_check_urls_async)
  have rec: "bm_id (fst (check_url b (net b))) = bm_id b
      \<and> bm_url (fst (check_url b (net b))) = bm_url b
      \<and> st_code (bm_status (fst (check_url b (net b)))) =
          Some (case e of
                  ClientConnectorError \<Rightarrow> 0
                | ClientResponseError s \<Rightarrow> s
                | ClientError \<Rightarrow> - 1
                | TimeoutError \<Rightarrow> 408
                | OtherException \<Rightarrow> - 2)
      \<and> st_redirect_url (bm_status (fst (check_url b (net b)))) = None
      \<and> st_ssl_valid (bm_status (fst (check_url b (net b)))) = None
      \<and> st_response_time (bm_status (fst (check_url b (net b)))) = Some (elapsed (net b))
      \<and> st_last_checked (bm_status (fst (check_url b (net b)))) = Some (now_iso (net b))"
    using assms(2) by (simp add: check_url_head_raises handle_exn_def)
  from mem rec have 1: "\<exists>b' \<in> set (check_urls_async bookmarks cfg net finish).
            bm_id b' = bm_id b \<and> bm_url b' = bm_url b
            \<and> st_code (bm_status b') =
                Some (case e of
                        ClientConnectorError \<Rightarrow> 0
                      | ClientResponseError s \<Rightarrow> s
                      | ClientError \<Rightarrow> - 1
                      | TimeoutError \<Rightarrow> 408
                      | OtherException \<Rightarrow> - 2)
            \<and> st_redirect_url (bm_status b') = None
            \<and> st_ssl_valid (bm_status b') = None
            \<and> st_response_time (bm_status b') = Some (elapsed (net b))
            \<and> st_last_checked (bm_status b') = Some (now_iso (net b))"
    by (rule bexI [rotated])
  have 2: "st_code (probe_status b0 (io\<lparr>on_head := Inl ClientConnectorError\<rparr>)) = Some 0
     \<and> st_code (probe_status b0 (io\<lparr>on_head := Inl (ClientResponseError s0)\<rparr>)) = Some s0
     \<and> st_code (probe_status b0 (io\<lparr>on_head := Inl TimeoutError\<rparr>)) = Some 408
     \<and> st_code (probe_status b0 (io\<lparr>on_head := Inl ClientError\<rparr>)) = Some (- 1)
     \<and> st_code (probe_status b0 (io\<lparr>on_head := Inl OtherException\<rparr>)) = Some (- 2)"
    by (simp add: probe_status_def check_url_head_raises handle_exn_def)
  from 1 2 show ?thesis
    by (simp add: length_check_urls_async)
qed

text \<open>
  The scenario: a batch of one bookmark whose HEAD request times out; the phase returns
  its record with code 408.
\<close>

theorem probe_exception_codes_witness:
  "st_code (bm_status (hd (check_urls_async [ex_bookmark] ex_cfg
       (\<lambda>b. ex_io (Inl TimeoutError) (Inl TimeoutError)) (\<lambda>i. i)))) = Some 408
   \<and> length (check_urls_async [ex_bookmark] ex_cfg
       (\<lambda>b. ex_io (Inl TimeoutError) (Inl TimeoutError)) (\<lambda>i. i)) = 1"
proof -
  have mem: "ex_bookmark \<in> set [ex_bookmark]"
    by simp
  have h: "on_head ((\<lambda>b. ex_io (Inl TimeoutError) (Inl TimeoutError)) ex_bookmark) = Inl TimeoutError"
    by (simp add: ex_io_def)
  from probe_exception_codes [OF mem h, of ex_cfg "\<lambda>i. i"]
  show ?thesis
    by (simp add: check_urls_async_single)
qed

theorem probe_status_consistent_witness:
  "st_code (bm_status (hd (check_urls_async [ex_bookmark] ex_cfg
       (\<lambda>b. ex_io (ex_response 301 None) (Inl TimeoutError)) (\<lambda>i. i)))) = Some 301
   \<and> st_redirect (bm_status (hd (check_urls_async [ex_bookmark] ex_cfg
       (\<lambda>b. ex_io (ex_response 301 None) (Inl TimeoutError)) (\<lambda>i. i)))) = Some True
   \<and> st_accessible (bm_status (hd (check_urls_async [ex_bookmark] ex_cfg
       (\<lambda>b. ex_io (ex_response 301 None) (Inl TimeoutError)) (\<lambda>i. i)))) = Some True"
proof -
  let ?out = "check_urls_async [ex_bookmark] ex_cfg
       (\<lambda>b. ex_io (ex_response 301 None) (Inl TimeoutError)) (\<lambda>i. i)"
  have mem: "hd ?out \<in> set ?out"
    by (simp add: check_urls_async_single)
  have code: "st_code (bm_status (hd ?out)) = Some 301"
    by (simp add: check_urls_async_single check_url_head_returns ex_io_def ex_response_def
        confirm_get_def Let_def)
  from probe_status_consistent [OF mem] code show ?thesis
    by auto
qed

text \<open>
  The claim as stated fails in its example: a probe that ends with code 301 writes
  \<open>accessible = true\<close>, as the formula says, not \<open>accessible = false\<close>.
\<close>

theorem redirect_301_is_accessible:
  "st_code (probe_status ex_bookmark (ex_io (ex_response 301 None) (Inl TimeoutError))) = Some 301
   \<and> st_redirect (probe_status ex_bookmark (ex_io (ex_response 301 None) (Inl TimeoutError))) = Some True
   \<and> st_accessible (probe_status ex_bookmark (ex_io (ex_response 301 None) (Inl TimeoutError))) = Some True"
  by (simp add: probe_status_def check_url_head_returns ex_io_def ex_response_def
        confirm_get_def Let_def)

lemma bm_id_check_url: "bm_id (fst (check_url b io)) = bm_id b"
  by (cases "on_head io") (simp_all add: check_url_head_raises check_url_head_returns Let_def)

lemma bm_id_download_page_content: "bm_id (fst (download_page_content md5 b cfg io)) = bm_id b"
  by (simp add: download_page_content_def Let_def)

lemma mset_download_content_async:
  "mset (fst (download_content_async md5 bookmarks cfg net finish)) =
     image_mset (\<lambda>b. if is_accessible b then fst (download_page_content md5 b cfg (net b))
                      else b\<lparr>bm_content := inaccessible_content (fetch_now_iso (net b))\<rparr>)
       (mset bookmarks)"
    (is "_ = image_mset ?upd _")
proof -
  let ?dpc = "\<lambda>b. download_page_content md5 b cfg (net b)"
  let ?tasks = "fetch_tasks (get_delay cfg 2) bookmarks"
  have fst_tasks: "image_mset fst (mset ?tasks) = mset (filter is_accessible bookmarks)"
    using mset_fst_delayed_tasks_group [of "\<lambda>i. real i * get_delay cfg 2" "filter is_accessible bookmarks"]
    by (simp add: fetch_tasks_def group_accessible_eq)
  have "mset (fst (download_content_async md5 bookmarks cfg net finish))
      = image_mset (\<lambda>(b, dd). fst (?dpc b)) (mset ?tasks)
        + image_mset (\<lambda>b. b\<lparr>bm_content := inaccessible_content (fetch_now_iso (net b))\<rparr>)
            (filter_mset (\<lambda>b. \<not> is_accessible b) (mset bookmarks))"
    by (simp add: download_content_async_def mset_as_completed download_content_with_delay_def
        Let_def image_mset.compositionality comp_def case_prod_unfold)
  also have "image_mset (\<lambda>(b, dd). fst (?dpc b)) (mset ?tasks)
      = image_mset (\<lambda>b. fst (?dpc b)) (image_mset fst (mset ?tasks))"
    by (simp add: image_mset.compositionality comp_def case_prod_unfold)
  also have "\<dots> = image_mset ?upd (filter_mset is_accessible (mset bookmarks))"
    unfolding fst_tasks by (auto intro: image_mset_cong)
  also have "image_mset (\<lambda>b. b\<lparr>bm_content := inaccessible_content (fetch_now_iso (net b))\<rparr>)
            (filter_mset (\<lambda>b. \<not> is_accessible b) (mset bookmarks))
      = image_mset ?upd (filter_mset (\<lambda>b. \<not> is_accessible b) (mset bookmarks))"
    by (auto intro: image_mset_cong)
  finally show ?thesis
    using multiset_partition [of "mset bookmarks" is_accessible]
    by (metis image_mset_union)
qed

text \<open>
  Claim C8. For every batch and every order in which the tasks of a phase finish, the
  probe phase and the fetch phase return their bookmarks sorted ascending by \<open>id\<close>: the
  sequence of ids returned is the sorted sequence of the ids of the batch.
\<close>

theorem phases_sorted_by_id:
  "sorted (map bm_id (check_urls_async bookmarks cfg net finish))
   \<and> map bm_id (check_urls_async bookmarks cfg net finish) = sort (map bm_id bookmarks)
   \<and> sorted (map bm_id (fst (download_content_async md5 bookmarks cfg fnet ffinish)))
   \<and> map bm_id (fst (download_content_async md5 bookmarks cfg fnet ffinish))
       = sort (map bm_id bookmarks)"
proof -
  have s1: "sorted (map bm_id (check_urls_async bookmarks cfg net finish))"
    by (simp add: check_urls_async_def Let_def)
  have m1: "mset (map bm_id (check_urls_async bookmarks cfg net finish)) = mset (map bm_id bookmarks)"
    by (simp only: mset_map mset_check_urls_async)
      (simp add: image_mset.compositionality comp_def bm_id_check_url)
  have e1: "map bm_id (check_urls_async bookmarks cfg net finish) = sort (map bm_id bookmarks)"
    by (rule properties_for_sort [OF m1 s1, symmetric])
  have s2: "sorted (map bm_id (fst (download_content_async md5 bookmarks cfg fnet ffinish)))"
    by (simp add: download_content_async_def Let_def)
  have m2: "mset (map bm_id (fst (download_content_async md5 bookmarks cfg fnet ffinish)))
      = mset (map bm_id bookmarks)"
    by (simp only: mset_map mset_download_content_async)
      (simp add: image_mset.compositionality comp_def bm_id_download_page_content if_distrib
          cong: if_cong)
  have e2: "map bm_id (fst (download_content_async md5 bookmarks cfg fnet ffinish))
      = sort (map bm_id bookmarks)"
    by (rule properties_for_sort [OF m2 s2, symmetric])
  from s1 e1 s2 e2 show ?thesis by simp
qed

section \<open>Properties of the fetch\<close>

lemma download_page_content_inaccessible:
  "\<not> is_accessible b \<Longrightarrow> download_page_content md5 b cfg io = (b, [])"
  by (simp add: download_page_content_def)

lemma requests_download_page_content:
  "is_accessible b \<Longrightarrow> snd (download_page_content md5 b cfg io) = [GET (fetch_target b) True]"
  by (simp add: download_page_content_def Let_def)

lemma set_fst_fetch_tasks:
  "fst ` set (fetch_tasks d bookmarks) = set (filter is_accessible bookmarks)"
proof -
  have "set_mset (mset (map fst (fetch_tasks d bookmarks)))
      = set_mset (mset (filter is_accessible bookmarks))"
    using mset_fst_delayed_tasks_group [of "\<lambda>i. real i * d" "filter is_accessible bookmarks"]
    by (simp only: fetch_tasks_def group_accessible_eq)
  then show ?thesis by simp
qed

lemma fetch_requests:
  assumes "(b, r) \<in> set (snd (download_content_async md5 bookmarks cfg net finish))"
  shows "is_accessible b \<and> b \<in> set bookmarks \<and> r = GET (fetch_target b) True"
proof -
  let ?tasks = "map (\<lambda>(bookmark, domain_delay).
                   (bookmark, download_content_with_delay md5 bookmark cfg (net bookmark) domain_delay))
                (fetch_tasks (get_delay cfg 2) bookmarks)"
  from assms obtain b' res where c: "(b', res) \<in> set (as_completed finish ?tasks)"
      and r: "(b, r) \<in> set (map (Pair b') (snd res))"
    by (auto simp: download_content_async_def Let_def)
  from r have bb: "b' = b" and rr: "r \<in> set (snd res)"
    by auto
  from c obtain dd where t: "(b, dd) \<in> set (fetch_tasks (get_delay cfg 2) bookmarks)"
      and res: "res = download_page_content md5 b cfg (net b)"
    unfolding bb set_as_completed by (auto simp: download_content_with_delay_def)
  from t have "b \<in> fst ` set (fetch_tasks (get_delay cfg 2) bookmarks)"
    by force
  then have acc: "is_accessible b" and mem: "b \<in> set bookmarks"
    by (simp_all add: set_fst_fetch_tasks)
  from rr res acc have "r = GET (fetch_target b) True"
    by (simp add: requests_download_page_content)
  with acc mem show ?thesis by simp
qed

text \<open>
  Claim C3. For every bookmark of the batch that is not accessible, the fetch phase
  issues no request for it and returns it with \<open>content\<close> exactly
  \<open>{downloaded: false, error: "inaccessible_url", download_date: now}\<close>; every request
  of the phase belongs to an accessible bookmark, and \<open>download_page_content\<close> itself
  issues no request for an inaccessible one.
\<close>

theorem inaccessible_short_circuit:
  assumes "b \<in> set bookmarks" and "\<not> is_accessible b"
  shows "b\<lparr>bm_content :=
            \<lparr>ct_downloaded = False, ct_path = None, ct_size = None, ct_mime_type = None,
             ct_download_date = Some (fetch_now_iso (net b)),
             ct_error = Some ''inaccessible_url'', ct_url_used = None\<rparr>\<rparr>
           \<in> set (fst (download_content_async md5 bookmarks cfg net finish))
     \<and> (\<forall>r. (b, r) \<notin> set (snd (download_content_async md5 bookmarks cfg net finish)))
     \<and> list_all (\<lambda>(b', r). is_accessible b')
          (snd (download_content_async md5 bookmarks cfg net finish))
     \<and> snd (download_page_content md5 b cfg (net b)) = []"
proof -
  have "set_mset (mset (fst (download_content_async md5 bookmarks cfg net finish)))
      = set_mset (image_mset
          (\<lambda>b. if is_accessible b then fst (download_page_content md5 b cfg (net b))
                else b\<lparr>bm_content := inaccessible_content (fetch_now_iso (net b))\<rparr>)
          (mset bookmarks))"
    by (simp only: mset_download_content_async)
  with assms have 1: "b\<lparr>bm_content := inaccessible_content (fetch_now_iso (net b))\<rparr>
      \<in> set (fst (download_content_async md5 bookmarks cfg net finish))"
    by force
  have 2: "(b, r) \<notin> set (snd (download_content_async md5 bookmarks cfg net finish))" for r
    using fetch_requests [of b r md5 bookmarks cfg net finish] assms(2) by blast
  have 3: "list_all (\<lambda>(b', r). is_accessible b')
          (snd (download_content_async md5 bookmarks cfg net finish))"
    unfolding list_all_iff using fetch_requests [of _ _ md5 bookmarks cfg net finish] by auto
  from 1 2 3 assms(2) show ?thesis
    by (simp add: inaccessible_content_def download_page_content_inaccessible)
qed

lemma ex_a_inaccessible: "\<not> is_accessible ex_a"
  by (simp add: ex_a_eq is_accessible_def)

lemma ex_b_accessible: "is_accessible ex_b"
  by (simp add: ex_b_eq is_accessible_def)

lemma fetch_target_ex_b: "fetch_target ex_b = ''http://x.com/b''"
  by (simp add: ex_b_eq fetch_target_def)

theorem inaccessible_short_circuit_witness:
  "ex_a\<lparr>bm_content :=
            \<lparr>ct_downloaded = False, ct_path = None, ct_size = None, ct_mime_type = None,
             ct_download_date = Some ''2024-01-01T00:00:01'',
             ct_error = Some ''inaccessible_url'', ct_url_used = None\<rparr>\<rparr>
           \<in> set (fst (download_content_async ex_md5 [ex_a, ex_b] ex_cfg (\<lambda>b. ex_fetch_io None) (\<lambda>i. i)))
   \<and> snd (download_content_async ex_md5 [ex_a, ex_b] ex_cfg (\<lambda>b. ex_fetch_io None) (\<lambda>i. i))
       = [(ex_b, GET ''http://x.com/b'' True)]"
proof -
  have mem: "ex_a \<in> set [ex_a, ex_b]" by simp
  have log: "snd (download_content_async ex_md5 [ex_a, ex_b] ex_cfg (\<lambda>b. ex_fetch_io None) (\<lambda>i. i))
       = [(ex_b, GET ''http://x.com/b'' True)]"
    by (simp add: download_content_async_def fetch_tasks_def group_accessible_by_domain_def
        ex_a_inaccessible ex_b_accessible delayed_tasks_Cons delayed_tasks_Nil as_completed_def
        download_content_with_delay_def requests_download_page_content fetch_target_ex_b Let_def)
  from inaccessible_short_circuit [OF mem ex_a_inaccessible, of "\<lambda>b. ex_fetch_io None" ex_md5 ex_cfg "\<lambda>i. i"]
    log show ?thesis
    by (simp add: ex_fetch_io_def)
qed






section \<open>The stored file\<close>

lemma path_join_append: "path_join a (p @ q) = path_join (path_join a p) q"
  by (induction p arbitrary: a) simp_all

lemma sanitized_path_eq:
  "sanitized_path url =
     (if strip CHR ''/'' (path (urlparse url)) = [] then ''index''
      else take 100 (map (\<lambda>c. if c = CHR ''/'' then CHR ''_'' else c)
                      (strip CHR ''/'' (path (urlparse url)))))"
  by (simp add: sanitized_path_def Let_def replace_def)

lemma sanitized_path_props:
  "length (sanitized_path url) \<le> 100" "sanitized_path url \<noteq> []"
  "CHR ''/'' \<notin> set (sanitized_path url)"
proof -
  show "length (sanitized_path url) \<le> 100"
    by (simp add: sanitized_path_eq)
  show "sanitized_path url \<noteq> []"
    by (simp add: sanitized_path_eq)
  have "CHR ''/'' \<notin> set (map (\<lambda>c. if c = CHR ''/'' then CHR ''_'' else c) s)" for s
    by auto
  then have "CHR ''/'' \<notin> set (take 100 (map (\<lambda>c. if c = CHR ''/'' then CHR ''_'' else c) s))" for s
    by (meson in_set_takeD)
  then show "CHR ''/'' \<notin> set (sanitized_path url)"
    by (simp add: sanitized_path_eq)
qed

lemma store_response_success:
  assumes "cfg_output_dir cfg = Some output_dir" and "on_makedirs io = None"
    and "on_read io = Inr body" and "on_write io = None"
  shows "store_response md5 cfg io url resp =
     Inr \<lparr>ct_downloaded = True,
          ct_path = Some (path_join output_dir
             [''data/content'', replace CHR '':'' CHR ''_'' (netloc (urlparse url)),
              content_filename md5 url
                (case fr_content_type resp of None \<Rightarrow> ''text/html'' | Some t \<Rightarrow> t) (today io)]),
          ct_size = Some (length body),
          ct_mime_type = Some (case fr_content_type resp of None \<Rightarrow> ''text/html'' | Some t \<Rightarrow> t),
          ct_download_date = Some (fetch_now_iso io),
          ct_error = None, ct_url_used = Some url\<rparr>"
proof -
  have pj: "path_join (path_join output_dir [x, y]) [z] = path_join output_dir [x, y, z]" for x y z
    using path_join_append [of output_dir "[x, y]" "[z]"] by simp
  show ?thesis
    using assms by (simp add: store_response_def Let_def pj del: path_join.simps)
qed

lemma download_page_content_success:
  assumes "is_accessible b" and "on_fetch io = Inr resp" and "fr_status resp = 200"
    and "cfg_output_dir cfg = Some output_dir" and "on_makedirs io = None"
    and "on_read io = Inr body" and "on_write io = None"
  shows "bm_content (fst (download_page_content md5 b cfg io)) =
     \<lparr>ct_downloaded = True,
      ct_path = Some (path_join output_dir
         [''data/content'', replace CHR '':'' CHR ''_'' (netloc (urlparse (fetch_target b))),
          content_filename md5 (fetch_target b)
            (case fr_content_type resp of None \<Rightarrow> ''text/html'' | Some t \<Rightarrow> t) (today io)]),
      ct_size = Some (length body),
      ct_mime_type = Some (case fr_content_type resp of None \<Rightarrow> ''text/html'' | Some t \<Rightarrow> t),
      ct_download_date = Some (fetch_now_iso io),
      ct_error = None, ct_url_used = Some (fetch_target b)\<rparr>"
  using assms(1-3) store_response_success [OF assms(4-7), of md5 "fetch_target b" resp]
  by (simp add: download_page_content_def Let_def del: path_join.simps)


lemma file_extension_examples:
  "file_extension ''application/json; charset=utf-8'' = ''.json''"
  "file_extension ''application/octet-stream'' = ''.html''"
  by code_simp+

text \<open>
  Claim C7, as amended. For every successful fetch (the GET request answers 200 and
  creating the directory, reading the body and writing the file raise nothing), the file
  is stored under the output directory, \<open>data/content\<close> and the network location with
  \<open>:\<close> replaced, and its name is made of: the path of the URL used, with leading and
  trailing \<open>/\<close> stripped, every other \<open>/\<close> replaced by \<open>_\<close>, cut to 100 characters, and
  \<open>index\<close> when nothing is left (no other character is replaced); the first 10
  characters of the hash of the URL used; the date stamp; and the extension \<open>.json\<close> if
  the content type contains \<open>json\<close>, else \<open>.xml\<close> if it contains \<open>xml\<close>, else \<open>.txt\<close> if
  it contains \<open>text/plain\<close>, else \<open>.html\<close> (a missing content type counts as
  \<open>text/html\<close>). So \<open>application/json; charset=utf-8\<close> gives \<open>.json\<close> and an
  unrecognized type gives \<open>.html\<close>.
\<close>

theorem stored_filename:
  assumes "is_accessible b" and "on_fetch io = Inr resp" and "fr_status resp = 200"
    and "cfg_output_dir cfg = Some output_dir" and "on_makedirs io = None"
    and "on_read io = Inr body" and "on_write io = None"
  shows "(let url = fetch_target b;
              content_type = (case fr_content_type resp of None \<Rightarrow> ''text/html'' | Some t \<Rightarrow> t);
              stripped = strip CHR ''/'' (path (urlparse url));
              stem = (if stripped = [] then ''index''
                      else take 100 (map (\<lambda>c. if c = CHR ''/'' then CHR ''_'' else c) stripped));
              extension = (if py_in ''json'' content_type then ''.json''
                           else if py_in ''xml'' content_type then ''.xml''
                           else if py_in ''text/plain'' content_type then ''.txt''
                           else ''.html'');
              c = bm_content (fst (download_page_content md5 b cfg io))
          in ct_downloaded c
             \<and> ct_path c =
                 Some (path_join output_dir
                   [''data/content'', replace CHR '':'' CHR ''_'' (netloc (urlparse url)),
                    stem @ ''_'' @ take 10 (md5 url) @ ''_'' @ today io @ extension])
             \<and> length stem \<le> 100 \<and> stem \<noteq> [] \<and> CHR ''/'' \<notin> set stem)
     \<and> file_extension ''application/json; charset=utf-8'' = ''.json''
     \<and> file_extension ''application/octet-stream'' = ''.html''"
proof -
  note c = download_page_content_success [OF assms, of md5]
  note stem = sanitized_path_props [of "fetch_target b", unfolded sanitized_path_eq]
  have main: "(let url = fetch_target b;
              content_type = (case fr_content_type resp of None \<Rightarrow> ''text/html'' | Some t \<Rightarrow> t);
              stripped = strip CHR ''/'' (path (urlparse url));
              stem = (if stripped = [] then ''index''
                      else take 100 (map (\<lambda>c. if c = CHR ''/'' then CHR ''_'' else c) stripped));
              extension = (if py_in ''json'' content_type then ''.json''
                           else if py_in ''xml'' content_type then ''.xml''
                           else if py_in ''text/plain'' content_type then ''.txt''
                           else ''.html'');
              c = bm_content (fst (download_page_content md5 b cfg io))
          in ct_downloaded c
             \<and> ct_path c =
                 Some (path_join output_dir
                   [''data/content'', replace CHR '':'' CHR ''_'' (netloc (urlparse url)),
                    stem @ ''_'' @ take 10 (md5 url) @ ''_'' @ today io @ extension])
             \<and> length stem \<le> 100 \<and> stem \<noteq> [] \<and> CHR ''/'' \<notin> set stem)"
    unfolding Let_def c content_filename_def sanitized_path_eq file_extension_def
    using stem by (simp del: path_join.simps)
  show ?thesis
    by (intro conjI main file_extension_examples)
qed

lemma urlparse_example3:
  "urlparse ''http://x.com/b'' = \<lparr>scheme = ''http'', netloc = ''x.com'', path = ''/b''\<rparr>"
  by code_simp

lemma py_in_example: "py_in ''json'' ''application/json; charset=utf-8''"
  by code_simp

theorem stored_filename_witness:
  "ct_path (bm_content (fst (download_page_content ex_md5 ex_b ex_cfg
       (ex_fetch_io (Some ''application/json; charset=utf-8'')))))
     = Some ''output/data/content/x.com/b_0123456789_20240101.json''
   \<and> ct_downloaded (bm_content (fst (download_page_content ex_md5 ex_b ex_cfg
       (ex_fetch_io (Some ''application/json; charset=utf-8'')))))"
proof -
  let ?io = "ex_fetch_io (Some ''application/json; charset=utf-8'')"
  have io: "on_fetch ?io = Inr \<lparr>fr_status = 200, fr_content_type = Some ''application/json; charset=utf-8''\<rparr>"
      "on_makedirs ?io = None" "on_read ?io = Inr ''{}''" "on_write ?io = None"
      "today ?io = ''20240101''"
    by (simp_all add: ex_fetch_io_def)
  have st: "fr_status \<lparr>fr_status = 200, fr_content_type = Some ''application/json; charset=utf-8''\<rparr> = 200"
    by simp
  have cfg: "cfg_output_dir ex_cfg = Some ''output''"
    by (simp add: ex_cfg_def)
  from stored_filename [OF ex_b_accessible io(1) st cfg io(2) io(3) io(4), of ex_md5]
  show ?thesis
    by (simp add: Let_def fetch_target_ex_b urlparse_example3 py_in_example io(5) strip_def
        replace_def ex_md5_def startswith_def endswith_def)
qed

lemma urlparse_example2:
  "urlparse ''https://a.b/x.y/z-1''
     = \<lparr>scheme = ''https'', netloc = ''a.b'', path = ''/x.y/z-1''\<rparr>"
  by code_simp

text \<open>
  The claim as stated fails: only \<open>/\<close> is replaced, so the characters \<open>.\<close> and \<open>-\<close> of
  the path, which are not alphanumeric, stay in the file name.
\<close>

theorem sanitized_path_keeps_punctuation:
  "sanitized_path ''https://a.b/x.y/z-1'' = ''x.y_z-1''
   \<and> CHR ''.'' \<in> set (sanitized_path ''https://a.b/x.y/z-1'')
   \<and> CHR ''-'' \<in> set (sanitized_path ''https://a.b/x.y/z-1'')"
  by (simp add: sanitized_path_def urlparse_example2 strip_def replace_def)

end
